theory Spec2Isabelle
  imports Main
begin

section \<open>rasa.nlu.train: one training run and its worker entry point\<close>

text \<open>
  The module \<^verbatim>\<open>rasa/nlu/train.py\<close> holds the class \<^verbatim>\<open>TrainingException\<close> and the
  functions \<^verbatim>\<open>create_persistor\<close>, \<^verbatim>\<open>do_train_in_worker\<close> and \<^verbatim>\<open>train\<close>. Everything
  else it calls (\<^verbatim>\<open>config.load\<close>, \<^verbatim>\<open>Trainer\<close>, \<^verbatim>\<open>get_persistor\<close>, \<^verbatim>\<open>load_data\<close>,
  \<^verbatim>\<open>load_data_from_endpoint\<close>) lives in other modules; those collaborators are parameters
  of the model, so every theorem holds for any behaviour they may have.
\<close>

subsection \<open>Python values and exceptions\<close>

text \<open>
  The arguments of a Python exception are arbitrary objects; the universe below is enough
  for the diagnostics the module copies around.
\<close>

datatype pyval = PyNone | PyBool bool | PyInt int | PyStr string

text \<open>
  An exception object: its class name, its \<^verbatim>\<open>args\<close> tuple, and the outcome of its truth
  test \<^verbatim>\<open>bool(e)\<close>. The outcome is \<open>Inr True\<close> for every exception whose class defines
  neither \<^verbatim>\<open>__bool__\<close> nor \<^verbatim>\<open>__len__\<close> (all built-in exceptions), \<open>Inr False\<close> for an
  object that tests false (a class whose \<^verbatim>\<open>__len__\<close> returns 0 or whose \<^verbatim>\<open>__bool__\<close>
  returns \<^verbatim>\<open>False\<close>), and \<open>Inl e'\<close> when the truth test itself raises \<open>e'\<close>.
  \<^verbatim>\<open>raise ValueError\<close> and \<^verbatim>\<open>KeyboardInterrupt()\<close> have an empty \<^verbatim>\<open>args\<close>.
\<close>

datatype pyexc = PyExc (exc_class: string) (exc_args: "pyval list") (exc_bool: "pyexc + bool")

text \<open>
  \<^verbatim>\<open>class TrainingException(Exception)\<close>: the attribute \<^verbatim>\<open>failed_target_project\<close> is always
  set, the attribute \<^verbatim>\<open>message\<close> only inside \<^verbatim>\<open>if exception:\<close>; \<open>None\<close> stands for an
  attribute that was never assigned.
\<close>

record TrainingException =
  failed_target_project :: "string option"
  message :: "pyval option"

text \<open>What \<^verbatim>\<open>exception.args[0]\<close> raises on an empty tuple.\<close>

definition IndexError :: pyexc where
  "IndexError = PyExc ''IndexError'' [PyStr ''tuple index out of range''] (Inr True)"

text \<open>
  \<^verbatim>\<open>TrainingException.__init__(self, failed_target_project=None, exception=None)\<close>.
  \<^verbatim>\<open>if exception:\<close> is a truth test: it is false for \<^verbatim>\<open>None\<close>, and for an exception
  object it is the object's own truth test, which may be true, be false, or raise. Only in
  the true branch is \<^verbatim>\<open>self.message = exception.args[0]\<close> run, and the index has no guard:
  on an empty tuple the constructor itself raises.
\<close>

definition TrainingException_init ::
  "string option \<Rightarrow> pyexc option \<Rightarrow> pyexc + TrainingException" where
  "TrainingException_init project exception =
     (case exception of
        None \<Rightarrow> Inr \<lparr>failed_target_project = project, message = None\<rparr>
      | Some e \<Rightarrow>
          (case exc_bool e of
             Inl e' \<Rightarrow> Inl e'
           | Inr truth \<Rightarrow>
               if truth then
                 (case exc_args e of
                    [] \<Rightarrow> Inl IndexError
                  | a # _ \<Rightarrow> Inr \<lparr>failed_target_project = project, message = Some a\<rparr>)
               else Inr \<lparr>failed_target_project = project, message = None\<rparr>))"

subsection \<open>Collaborators and the calls made to them\<close>

record RasaNLUModelConfig =
  language :: string
  pipeline :: "string list"

record EndpointConfig =
  url :: string

type_synonym kwargs = "(string \<times> pyval) list"

text \<open>
  The first argument of \<^verbatim>\<open>train\<close> is \<^verbatim>\<open>Union[Text, RasaNLUModelConfig]\<close>, told apart by
  \<^verbatim>\<open>isinstance(nlu_config, str)\<close>.
\<close>

datatype config_input = Reference string | Resolved RasaNLUModelConfig

text \<open>
  The collaborators of one run. A result \<open>Inl e\<close> is the exception \<open>e\<close> raised by the call.
  The trainer is a mutable object: \<^verbatim>\<open>trainer.train\<close> and \<^verbatim>\<open>trainer.persist\<close> return its
  state after the call next to their result. The type variables are the trainer \<open>'tr\<close>, the
  training data \<open>'td\<close>, the interpreter \<open>'it\<close>, the persistor \<open>'ps\<close> and the component
  builder \<open>'cb\<close>.
\<close>

record ('tr, 'td, 'it, 'ps, 'cb) collaborators =
  config_load :: "string \<Rightarrow> pyexc + RasaNLUModelConfig"
  Trainer_init :: "RasaNLUModelConfig \<Rightarrow> 'cb option \<Rightarrow> pyexc + 'tr"
  get_persistor :: "string \<Rightarrow> pyexc + 'ps option"
  load_data_from_endpoint :: "EndpointConfig \<Rightarrow> string \<Rightarrow> pyexc + 'td"
  load_data :: "string \<Rightarrow> string \<Rightarrow> pyexc + 'td"
  Trainer_train :: "'tr \<Rightarrow> 'td \<Rightarrow> kwargs \<Rightarrow> pyexc + ('tr \<times> 'it)"
  Trainer_persist :: "'tr \<Rightarrow> string \<Rightarrow> 'ps option \<Rightarrow> string option \<Rightarrow> pyexc + ('tr \<times> string)"

text \<open>
  Every call that leaves the module is recorded, in order, with its arguments.
\<close>

datatype 'ps event =
    ConfigLoad string
  | TrainerInit RasaNLUModelConfig
  | GetPersistor string
  | LoadDataFromEndpoint EndpointConfig string
  | LoadData string string
  | TrainerTrain kwargs
  | TrainerPersist string "'ps option" "string option"
  | LogException string

definition is_config_load :: "'ps event \<Rightarrow> bool" where
  "is_config_load ev = (case ev of ConfigLoad _ \<Rightarrow> True | _ \<Rightarrow> False)"

definition is_load_data :: "'ps event \<Rightarrow> bool" where
  "is_load_data ev = (case ev of LoadData _ _ \<Rightarrow> True | _ \<Rightarrow> False)"

definition is_data_acquisition :: "'ps event \<Rightarrow> bool" where
  "is_data_acquisition ev =
     (case ev of LoadData _ _ \<Rightarrow> True | LoadDataFromEndpoint _ _ \<Rightarrow> True | _ \<Rightarrow> False)"

definition is_persist :: "'ps event \<Rightarrow> bool" where
  "is_persist ev = (case ev of TrainerPersist _ _ _ \<Rightarrow> True | _ \<Rightarrow> False)"

subsection \<open>Sequencing statements that may raise\<close>

text \<open>
  A statement yields the calls it made and either the exception it raised or its value.
  \<open>bind_run m f\<close> is \<open>m\<close> followed by \<open>f\<close>: when \<open>m\<close> raises, \<open>f\<close> does not run.
\<close>

definition returns :: "'a \<Rightarrow> 'ev list \<times> (pyexc + 'a)" where
  "returns x = ([], Inr x)"

definition call :: "'ev \<Rightarrow> pyexc + 'a \<Rightarrow> 'ev list \<times> (pyexc + 'a)" where
  "call ev r = ([ev], r)"

definition bind_run ::
  "'ev list \<times> (pyexc + 'a) \<Rightarrow> ('a \<Rightarrow> 'ev list \<times> (pyexc + 'b)) \<Rightarrow> 'ev list \<times> (pyexc + 'b)" where
  "bind_run m f =
     (case snd m of
        Inl e \<Rightarrow> (fst m, Inl e)
      | Inr x \<Rightarrow> (fst m @ fst (f x), snd (f x)))"

subsection \<open>The functions of the module\<close>

text \<open>
  \<^verbatim>\<open>create_persistor(persistor)\<close>: \<^verbatim>\<open>get_persistor(persistor)\<close> when the identifier is not
  \<^verbatim>\<open>None\<close>, else \<^verbatim>\<open>None\<close> without any call.
\<close>

definition create_persistor ::
  "('tr, 'td, 'it, 'ps, 'cb) collaborators \<Rightarrow> string option
     \<Rightarrow> 'ps event list \<times> (pyexc + 'ps option)" where
  "create_persistor env persistor =
     (case persistor of
        Some name \<Rightarrow> call (GetPersistor name) (get_persistor env name)
      | None \<Rightarrow> returns None)"

text \<open>
  Modelled from the spec: the exception \<^verbatim>\<open>PersistorResolutionError\<close>, which is not among
  the sources. The spec (section 7) lists it as "unknown/unconstructible storage backend
  identifier" and gives it no arguments; the model puts the identifier there. It is an
  ordinary exception object, so it tests true.
\<close>

definition PersistorResolutionError :: "string \<Rightarrow> pyexc" where
  "PersistorResolutionError name = PyExc ''PersistorResolutionError'' [PyStr name] (Inr True)"

text \<open>
  Modelled from the spec: \<^verbatim>\<open>get_persistor\<close> of \<^verbatim>\<open>rasa.nlu.persistor\<close>, the Artifact
  Persistor collaborator behind the Persistor Factory, which is not among the sources. The
  spec (section 4.2) says of a present identifier that the factory "resolves and constructs
  a persistor handle via the Artifact Persistor collaborator; fails with
  \<^verbatim>\<open>PersistorResolutionError\<close> if the identifier is unrecognized or the backend cannot be
  constructed". \<open>backends\<close> maps the identifiers that are recognized and can be constructed
  to their handle.
\<close>

definition spec_get_persistor :: "(string \<Rightarrow> 'ps option) \<Rightarrow> string \<Rightarrow> pyexc + 'ps option" where
  "spec_get_persistor backends name =
     (case backends name of
        None \<Rightarrow> Inl (PersistorResolutionError name)
      | Some handle \<Rightarrow> Inr (Some handle))"

text \<open>
  Lines 75 and 76 of \<^verbatim>\<open>train\<close>:
  \<^verbatim>\<open>if isinstance(nlu_config, str): nlu_config = config.load(nlu_config)\<close>.
\<close>

definition resolve_config ::
  "('tr, 'td, 'it, 'ps, 'cb) collaborators \<Rightarrow> config_input
     \<Rightarrow> 'ps event list \<times> (pyexc + RasaNLUModelConfig)" where
  "resolve_config env nlu_config =
     (case nlu_config of
        Reference ref \<Rightarrow> call (ConfigLoad ref) (config_load env ref)
      | Resolved cfg \<Rightarrow> returns cfg)"

text \<open>
  \<^verbatim>\<open>if path:\<close> tests the truth value of an \<^verbatim>\<open>Optional[Text]\<close>: \<^verbatim>\<open>None\<close> and the empty
  string are both false.
\<close>

definition truthy :: "string option \<Rightarrow> bool" where
  "truthy path = (case path of None \<Rightarrow> False | Some s \<Rightarrow> s \<noteq> [])"

text \<open>
  Lines 83 to 88 of \<^verbatim>\<open>train\<close>: the training data come from the endpoint when
  \<^verbatim>\<open>training_data_endpoint is not None\<close>, from the local path \<^verbatim>\<open>data\<close> otherwise.
\<close>

definition acquire_training_data ::
  "('tr, 'td, 'it, 'ps, 'cb) collaborators \<Rightarrow> EndpointConfig option \<Rightarrow> string \<Rightarrow> string
     \<Rightarrow> 'ps event list \<times> (pyexc + 'td)" where
  "acquire_training_data env training_data_endpoint data lang =
     (case training_data_endpoint of
        Some endpoint \<Rightarrow>
          call (LoadDataFromEndpoint endpoint lang) (load_data_from_endpoint env endpoint lang)
      | None \<Rightarrow> call (LoadData data lang) (load_data env data lang))"

text \<open>
  \<^verbatim>\<open>train(nlu_config, data, path, fixed_model_name, storage, component_builder,
  training_data_endpoint, **kwargs)\<close>, statement by statement. There is no \<^verbatim>\<open>try\<close>
  in its body.
\<close>

definition train ::
  "('tr, 'td, 'it, 'ps, 'cb) collaborators \<Rightarrow> config_input \<Rightarrow> string \<Rightarrow> string option
     \<Rightarrow> string option \<Rightarrow> string option \<Rightarrow> 'cb option \<Rightarrow> EndpointConfig option \<Rightarrow> kwargs
     \<Rightarrow> 'ps event list \<times> (pyexc + ('tr \<times> 'it \<times> string option))" where
  "train env nlu_config data path fixed_model_name storage component_builder
       training_data_endpoint kwargs =
     bind_run (resolve_config env nlu_config) (\<lambda>nlu_config.
     bind_run (call (TrainerInit nlu_config) (Trainer_init env nlu_config component_builder))
       (\<lambda>trainer.
     bind_run (create_persistor env storage) (\<lambda>persistor.
     bind_run (acquire_training_data env training_data_endpoint data (language nlu_config))
       (\<lambda>training_data.
     bind_run (call (TrainerTrain kwargs) (Trainer_train env trainer training_data kwargs))
       (\<lambda>(trainer, interpreter).
     bind_run
       (if truthy path then
          bind_run
            (call (TrainerPersist (the path) persistor fixed_model_name)
               (Trainer_persist env trainer (the path) persistor fixed_model_name))
            (\<lambda>(trainer, persisted_path). returns (trainer, Some persisted_path))
        else returns (trainer, None))
       (\<lambda>(trainer, persisted_path).
     returns (trainer, interpreter, persisted_path)))))))"

text \<open>What \<^verbatim>\<open>do_train_in_worker\<close> raises: a \<^verbatim>\<open>TrainingException\<close>, or whatever its
  construction raised.\<close>

datatype raised = Raised_TrainingException TrainingException | Raised pyexc

text \<open>\<^verbatim>\<open>"Failed to train on data '{}'.".format(data)\<close>\<close>

definition failed_to_train :: "string \<Rightarrow> string" where
  "failed_to_train data =
     ''Failed to train on data '' @ [CHR 0x27] @ data @ [CHR 0x27] @ ''.''"

text \<open>
  \<^verbatim>\<open>do_train_in_worker(cfg, data, path, fixed_model_name, storage, component_builder)\<close>.
  It has neither a \<^verbatim>\<open>training_data_endpoint\<close> nor keyword parameters and calls
  \<^verbatim>\<open>train\<close> with its six arguments, so \<^verbatim>\<open>train\<close> runs with the defaults of the other two.
  \<^verbatim>\<open>except BaseException\<close> catches every exception; the handler logs and raises
  \<^verbatim>\<open>TrainingException(path, e)\<close>. The annotations \<^verbatim>\<open>cfg: RasaNLUModelConfig\<close> and
  \<^verbatim>\<open>path: Text\<close> are not enforced by Python: both arguments are passed on as they are, so
  they range over what \<^verbatim>\<open>train\<close> accepts.
\<close>

definition do_train_in_worker ::
  "('tr, 'td, 'it, 'ps, 'cb) collaborators \<Rightarrow> config_input \<Rightarrow> string \<Rightarrow> string option
     \<Rightarrow> string option \<Rightarrow> string option \<Rightarrow> 'cb option
     \<Rightarrow> 'ps event list \<times> (raised + string option)" where
  "do_train_in_worker env cfg data path fixed_model_name storage component_builder =
     (case train env cfg data path fixed_model_name storage component_builder None [] of
        (calls, Inr (_, _, persisted_path)) \<Rightarrow> (calls, Inr persisted_path)
      | (calls, Inl e) \<Rightarrow>
          (calls @ [LogException (failed_to_train data)],
           case TrainingException_init path (Some e) of
             Inl e' \<Rightarrow> Inl (Raised e')
           | Inr te \<Rightarrow> Inl (Raised_TrainingException te)))"

subsection \<open>A concrete set of collaborators\<close>

text \<open>
  One executable choice of collaborators, on which the theorems below are run: a
  configuration file \<^verbatim>\<open>./cfg.yml\<close>, a storage backend \<^verbatim>\<open>aws\<close>, an endpoint
  \<^verbatim>\<open>http://x\<close>, and local data files that load, fail to load in several ways, or load data
  on which training fails. \<^verbatim>\<open>EmptyBatch\<close> stands for an exception class with a
  \<^verbatim>\<open>__len__\<close> that returns 0, so that its objects test false.
\<close>

definition demo_config :: RasaNLUModelConfig where
  "demo_config = \<lparr>language = ''en'', pipeline = [''keyword'']\<rparr>"

definition demo_endpoint :: EndpointConfig where
  "demo_endpoint = \<lparr>url = ''http://x''\<rparr>"

definition demo_load_data :: "string \<Rightarrow> string \<Rightarrow> pyexc + string" where
  "demo_load_data data lang =
     (if data = ''./data.md'' then Inr ''local''
      else if data = ''./bad.md'' then Inr ''bad''
      else if data = ''./interrupted.md''
        then Inl (PyExc ''KeyboardInterrupt'' [] (Inr True))
      else if data = ''./quiet.md'' then Inl (PyExc ''EmptyBatch'' [] (Inr False))
      else if data = ''./blank.md''
        then Inl (PyExc ''ValueError'' [PyStr []] (Inr True))
      else Inl (PyExc ''FileNotFoundError'' [PyStr ''no such file''] (Inr True)))"

definition demo_env :: "(nat, string, string, string, unit) collaborators" where
  "demo_env =
     \<lparr>config_load = (\<lambda>ref.
        if ref = ''./cfg.yml'' then Inr demo_config
        else Inl (PyExc ''InvalidConfigError'' [PyStr ''no such config''] (Inr True))),
      Trainer_init = (\<lambda>cfg builder. Inr 0),
      get_persistor = (\<lambda>name.
        if name = ''aws'' then Inr (Some ''aws'')
        else Inl (PyExc ''ImportError'' [PyStr ''unknown persistor''] (Inr True))),
      load_data_from_endpoint = (\<lambda>endpoint lang.
        if url endpoint = ''http://x'' then Inr ''remote''
        else Inl (PyExc ''ConnectionError'' [PyStr ''unreachable''] (Inr True))),
      load_data = demo_load_data,
      Trainer_train = (\<lambda>trainer training_data kw.
        if training_data = ''bad''
        then Inl (PyExc ''ValueError'' [PyStr ''bad feature X''] (Inr True))
        else Inr (Suc trainer, training_data)),
      Trainer_persist = (\<lambda>trainer path persistor fixed_model_name.
        Inr (trainer, path @ ''/'' @ (case fixed_model_name of None \<Rightarrow> ''nlu'' | Some n \<Rightarrow> n)))\<rparr>"

definition demo_backends :: "string \<Rightarrow> string option" where
  "demo_backends name = (if name = ''aws'' then Some ''aws-handle'' else None)"

subsection \<open>Facts about sequencing\<close>

lemma snd_bind_run_Inl_iff:
  "snd (bind_run m f) = Inl e \<longleftrightarrow> snd m = Inl e \<or> (\<exists>x. snd m = Inr x \<and> snd (f x) = Inl e)"
  by (cases "snd m") (simp_all add: bind_run_def)

lemma snd_bind_run_Inr_iff:
  "snd (bind_run m f) = Inr y \<longleftrightarrow> (\<exists>x. snd m = Inr x \<and> snd (f x) = Inr y)"
  by (cases "snd m") (simp_all add: bind_run_def)

lemma fst_bind_run_mem_iff:
  "ev \<in> set (fst (bind_run m f)) \<longleftrightarrow>
     ev \<in> set (fst m) \<or> (\<exists>x. snd m = Inr x \<and> ev \<in> set (fst (f x)))"
  by (cases "snd m") (simp_all add: bind_run_def)

lemma fst_bind_run:
  "fst (bind_run m f) = fst m @ (case snd m of Inl e \<Rightarrow> [] | Inr x \<Rightarrow> fst (f x))"
  by (cases "snd m") (simp_all add: bind_run_def)

lemma fst_call: "fst (call ev r) = [ev]"
  by (simp add: call_def)

lemma snd_call: "snd (call ev r) = r"
  by (simp add: call_def)

lemma fst_returns: "fst (returns x) = []"
  by (simp add: returns_def)

lemma snd_returns: "snd (returns x) = Inr x"
  by (simp add: returns_def)

lemmas run_simps = snd_bind_run_Inl_iff snd_bind_run_Inr_iff fst_bind_run_mem_iff
  fst_call snd_call fst_returns snd_returns

lemmas train_defs = train_def resolve_config_def create_persistor_def
  acquire_training_data_def

subsection \<open>Runs of the concrete collaborators\<close>

lemmas demo_defs = train_defs bind_run_def call_def returns_def truthy_def demo_env_def
  demo_load_data_def demo_config_def demo_endpoint_def

lemma demo_run_no_path:
  "train demo_env (Reference ''./cfg.yml'') ''./data.md'' None None None None None [] =
     ([ConfigLoad ''./cfg.yml'', TrainerInit demo_config, LoadData ''./data.md'' ''en'',
       TrainerTrain []],
      Inr (Suc 0, ''local'', None))"
  by (simp add: demo_defs)

lemma demo_run_path:
  "train demo_env (Reference ''./cfg.yml'') ''./data.md'' (Some ''./models'') None None None
     None [] =
     ([ConfigLoad ''./cfg.yml'', TrainerInit demo_config, LoadData ''./data.md'' ''en'',
       TrainerTrain [], TrainerPersist ''./models'' None None],
      Inr (Suc 0, ''local'', Some ''./models/nlu''))"
  by (simp add: demo_defs)

lemma demo_run_empty_path:
  "train demo_env (Reference ''./cfg.yml'') ''./data.md'' (Some []) None None None None [] =
     ([ConfigLoad ''./cfg.yml'', TrainerInit demo_config, LoadData ''./data.md'' ''en'',
       TrainerTrain []],
      Inr (Suc 0, ''local'', None))"
  by (simp add: demo_defs)

lemma demo_run_missing:
  "train demo_env (Resolved demo_config) ''./missing.md'' path None None None None [] =
     ([TrainerInit demo_config, LoadData ''./missing.md'' ''en''],
      Inl (PyExc ''FileNotFoundError'' [PyStr ''no such file''] (Inr True)))"
  by (simp add: demo_defs)

lemma demo_run_endpoint:
  "train demo_env (Resolved demo_config) ''./missing.md'' (Some ''./models'') None None None
     (Some demo_endpoint) [] =
     ([TrainerInit demo_config, LoadDataFromEndpoint demo_endpoint ''en'', TrainerTrain [],
       TrainerPersist ''./models'' None None],
      Inr (Suc 0, ''remote'', Some ''./models/nlu''))"
  by (simp add: demo_defs)

lemma demo_run_unknown_storage:
  "train demo_env (Resolved demo_config) ''./data.md'' (Some ''./models'') None
     (Some ''unknown-backend'') None None [] =
     ([TrainerInit demo_config, GetPersistor ''unknown-backend''],
      Inl (PyExc ''ImportError'' [PyStr ''unknown persistor''] (Inr True)))"
  by (simp add: demo_defs)

lemma demo_run_bad_feature:
  "train demo_env (Resolved demo_config) ''./bad.md'' (Some ''./out'') None None None None [] =
     ([TrainerInit demo_config, LoadData ''./bad.md'' ''en'', TrainerTrain []],
      Inl (PyExc ''ValueError'' [PyStr ''bad feature X''] (Inr True)))"
  by (simp add: demo_defs)

lemma demo_run_interrupted:
  "train demo_env (Resolved demo_config) ''./interrupted.md'' (Some ''./out'') None None None
     None [] =
     ([TrainerInit demo_config, LoadData ''./interrupted.md'' ''en''],
      Inl (PyExc ''KeyboardInterrupt'' [] (Inr True)))"
  by (simp add: demo_defs)

lemma demo_run_blank:
  "train demo_env (Resolved demo_config) ''./blank.md'' (Some ''./out'') None None None
     None [] =
     ([TrainerInit demo_config, LoadData ''./blank.md'' ''en''],
      Inl (PyExc ''ValueError'' [PyStr []] (Inr True)))"
  by (simp add: demo_defs)

subsection \<open>Runs without an output path\<close>

lemma train_not_truthy_no_persist:
  "\<not> truthy path \<Longrightarrow> ev \<in> set (fst (train env nc d path f s cb ep kw)) \<Longrightarrow> \<not> is_persist ev"
  unfolding train_defs
  by (auto simp: run_simps is_persist_def split: option.splits config_input.splits prod.splits)

lemma train_not_truthy_None:
  "\<not> truthy path \<Longrightarrow> snd (train env nc d path f s cb ep kw) = Inr (t, i, p) \<Longrightarrow> p = None"
  unfolding train_defs
  by (auto simp: run_simps split: option.splits config_input.splits prod.splits)

lemma train_persisted_truthy:
  "snd (train env nc d path f s cb ep kw) = Inr (t, i, Some pp) \<Longrightarrow> truthy path"
  unfolding train_defs
  by (auto simp: run_simps split: option.splits config_input.splits prod.splits if_splits)

lemma train_not_truthy_eq:
  "\<not> truthy path \<Longrightarrow> \<not> truthy path' \<Longrightarrow>
     train env nc d path f s cb ep kw = train env nc d path' f s cb ep kw"
  unfolding train_def by simp

lemma train_error_without_path:
  "\<not> truthy path \<Longrightarrow> snd (train env nc d path f s cb ep kw) = Inl e \<Longrightarrow>
     snd (train env nc d path' f s cb ep kw) = Inl e"
  unfolding train_def
  by (simp add: run_simps split: prod.splits) blast

text \<open>
  C4. When \<^verbatim>\<open>path\<close> is \<^verbatim>\<open>None\<close>, \<^verbatim>\<open>train\<close> never calls \<^verbatim>\<open>trainer.persist\<close> (the only
  call that is handed the persistor), and a result it returns has \<^verbatim>\<open>persisted_path\<close>
  \<^verbatim>\<open>None\<close>. A result with a \<^verbatim>\<open>persisted_path\<close> that is not \<^verbatim>\<open>None\<close> comes only from a run
  that was given a path. The missing path is never the cause of an error: an exception of
  a run without a path is raised by the same run with any path.
\<close>

theorem train_without_path:
  "(\<forall>ev \<in> set (fst (train env nlu_config data None fixed_model_name storage builder
        endpoint kwargs)). \<not> is_persist ev)
   \<and> (\<forall>t i p. snd (train env nlu_config data None fixed_model_name storage builder
        endpoint kwargs) = Inr (t, i, p) \<longrightarrow> p = None)
   \<and> (\<forall>path t i p. snd (train env nlu_config data path fixed_model_name storage builder
        endpoint kwargs) = Inr (t, i, Some p) \<longrightarrow> path \<noteq> None)
   \<and> (\<forall>path e. snd (train env nlu_config data None fixed_model_name storage builder
        endpoint kwargs) = Inl e \<longrightarrow>
        snd (train env nlu_config data path fixed_model_name storage builder
        endpoint kwargs) = Inl e)"
proof -
  have absent: "\<not> truthy None"
    by (simp add: truthy_def)
  have supplied: "path \<noteq> None" if "truthy path" for path
    using that by (cases path) (simp_all add: truthy_def)
  show ?thesis
    by (intro conjI ballI allI impI)
      (erule train_not_truthy_no_persist [OF absent] train_not_truthy_None [OF absent]
         train_error_without_path [OF absent] | rule supplied, erule train_persisted_truthy)+
qed

theorem train_without_path_witness:
  "set (fst (train demo_env (Reference ''./cfg.yml'') ''./data.md'' None None None None None []))
     = {ConfigLoad ''./cfg.yml'', TrainerInit demo_config, LoadData ''./data.md'' ''en'',
        TrainerTrain []}
   \<and> \<not> is_persist (TrainerTrain [] :: string event)
   \<and> snd (train demo_env (Reference ''./cfg.yml'') ''./data.md'' None None None None None [])
     = Inr (Suc 0, ''local'', None)
   \<and> snd (train demo_env (Reference ''./cfg.yml'') ''./data.md'' (Some ''./models'') None None
        None None []) = Inr (Suc 0, ''local'', Some ''./models/nlu'')
   \<and> Some ''./models'' \<noteq> (None :: string option)
   \<and> snd (train demo_env (Resolved demo_config) ''./missing.md'' None None None None None [])
     = Inl (PyExc ''FileNotFoundError'' [PyStr ''no such file''] (Inr True))
   \<and> snd (train demo_env (Resolved demo_config) ''./missing.md'' (Some ''./models'') None None
        None None [])
     = Inl (PyExc ''FileNotFoundError'' [PyStr ''no such file''] (Inr True))"
  using train_without_path [of demo_env "Reference ''./cfg.yml''" "''./data.md''" None None None
      None "[]"]
    train_without_path [of demo_env "Resolved demo_config" "''./missing.md''" None None None
      None "[]"]
  by (simp add: demo_run_no_path demo_run_path demo_run_missing is_persist_def)

text \<open>
  C10. The empty string is a false \<^verbatim>\<open>path\<close>: a run with \<^verbatim>\<open>path = ""\<close> is, call for call
  and in its outcome, the run with \<^verbatim>\<open>path = None\<close>; it never calls \<^verbatim>\<open>trainer.persist\<close>
  and a result it returns has \<^verbatim>\<open>persisted_path\<close> \<^verbatim>\<open>None\<close>.
\<close>

theorem train_empty_path:
  "train env nlu_config data (Some []) fixed_model_name storage builder endpoint kwargs
     = train env nlu_config data None fixed_model_name storage builder endpoint kwargs
   \<and> (\<forall>ev \<in> set (fst (train env nlu_config data (Some []) fixed_model_name storage builder
        endpoint kwargs)). \<not> is_persist ev)
   \<and> (\<forall>t i p. snd (train env nlu_config data (Some []) fixed_model_name storage builder
        endpoint kwargs) = Inr (t, i, p) \<longrightarrow> p = None)"
proof -
  have empty: "\<not> truthy (Some [])" and absent: "\<not> truthy None"
    by (simp_all add: truthy_def)
  show ?thesis
    by (intro conjI ballI allI impI)
      (rule train_not_truthy_eq [OF empty absent]
        | erule train_not_truthy_no_persist [OF empty] train_not_truthy_None [OF empty])+
qed

theorem train_empty_path_witness:
  "train demo_env (Reference ''./cfg.yml'') ''./data.md'' (Some []) None None None None []
     = train demo_env (Reference ''./cfg.yml'') ''./data.md'' None None None None None []
   \<and> set (fst (train demo_env (Reference ''./cfg.yml'') ''./data.md'' (Some []) None None None
        None []))
     = {ConfigLoad ''./cfg.yml'', TrainerInit demo_config, LoadData ''./data.md'' ''en'',
        TrainerTrain []}
   \<and> \<not> is_persist (LoadData ''./data.md'' ''en'' :: string event)
   \<and> snd (train demo_env (Reference ''./cfg.yml'') ''./data.md'' (Some []) None None None
        None []) = Inr (Suc 0, ''local'', None)"
  using train_empty_path [of demo_env "Reference ''./cfg.yml''" "''./data.md''" None None None
      None "[]"]
  by (simp add: demo_run_no_path demo_run_empty_path is_persist_def)

subsection \<open>Where the training data come from\<close>

lemma train_endpoint_events:
  "ev \<in> set (fst (train env nc d path f s cb (Some ep) kw)) \<Longrightarrow> is_data_acquisition ev \<Longrightarrow>
     \<exists>cfg. snd (resolve_config env nc) = Inr cfg \<and> ev = LoadDataFromEndpoint ep (language cfg)"
  unfolding train_defs
  by (auto simp: run_simps is_data_acquisition_def
      split: option.splits config_input.splits prod.splits if_splits)

lemma train_endpoint_no_load_data:
  "ev \<in> set (fst (train env nc d path f s cb (Some ep) kw)) \<Longrightarrow> \<not> is_load_data ev"
  unfolding train_defs
  by (auto simp: run_simps is_load_data_def
      split: option.splits config_input.splits prod.splits if_splits)

lemma train_endpoint_ignores_data:
  "train env nc d path f s cb (Some ep) kw = train env nc d' path f s cb (Some ep) kw"
  unfolding train_def acquire_training_data_def by simp

lemma train_endpoint_loaded:
  "snd (train env nc d path f s cb (Some ep) kw) = Inr r \<Longrightarrow>
     \<exists>lang. LoadDataFromEndpoint ep lang \<in> set (fst (train env nc d path f s cb (Some ep) kw))"
  unfolding train_defs
  by (auto simp: run_simps split: option.splits config_input.splits prod.splits if_splits)

text \<open>
  C5. When \<^verbatim>\<open>training_data_endpoint\<close> is given, \<^verbatim>\<open>train\<close> never calls \<^verbatim>\<open>load_data\<close>: the
  only data acquisition of the run is \<^verbatim>\<open>load_data_from_endpoint\<close> on that endpoint with
  the language of the resolved configuration, a run that returns has made that call, and
  the local path \<^verbatim>\<open>data\<close> has no influence on the calls or on the outcome.
\<close>

theorem train_remote_precedence:
  "(\<forall>ev \<in> set (fst (train env nlu_config data path fixed_model_name storage builder
        (Some endpoint) kwargs)). \<not> is_load_data ev)
   \<and> (\<forall>ev \<in> set (fst (train env nlu_config data path fixed_model_name storage builder
        (Some endpoint) kwargs)). is_data_acquisition ev \<longrightarrow>
        (\<exists>cfg. snd (resolve_config env nlu_config) = Inr cfg
           \<and> ev = LoadDataFromEndpoint endpoint (language cfg)))
   \<and> (\<forall>r. snd (train env nlu_config data path fixed_model_name storage builder
        (Some endpoint) kwargs) = Inr r \<longrightarrow>
        (\<exists>lang. LoadDataFromEndpoint endpoint lang
           \<in> set (fst (train env nlu_config data path fixed_model_name storage builder
                (Some endpoint) kwargs))))
   \<and> (\<forall>data'. train env nlu_config data path fixed_model_name storage builder
        (Some endpoint) kwargs
      = train env nlu_config data' path fixed_model_name storage builder
        (Some endpoint) kwargs)"
  by (intro conjI ballI allI impI)
    (erule train_endpoint_no_load_data | erule (1) train_endpoint_events
      | erule train_endpoint_loaded | rule train_endpoint_ignores_data)+

theorem train_remote_precedence_witness:
  "set (fst (train demo_env (Resolved demo_config) ''./missing.md'' (Some ''./models'') None
        None None (Some demo_endpoint) []))
     = {TrainerInit demo_config, LoadDataFromEndpoint demo_endpoint ''en'', TrainerTrain [],
        TrainerPersist ''./models'' None None}
   \<and> \<not> is_load_data (LoadDataFromEndpoint demo_endpoint ''en'' :: string event)
   \<and> is_data_acquisition (LoadDataFromEndpoint demo_endpoint ''en'' :: string event)
   \<and> snd (resolve_config demo_env (Resolved demo_config)) = Inr demo_config
   \<and> language demo_config = ''en''
   \<and> snd (train demo_env (Resolved demo_config) ''./missing.md'' (Some ''./models'') None
        None None (Some demo_endpoint) []) = Inr (Suc 0, ''remote'', Some ''./models/nlu'')
   \<and> snd (train demo_env (Resolved demo_config) ''./missing.md'' (Some ''./models'') None
        None None None [])
     = Inl (PyExc ''FileNotFoundError'' [PyStr ''no such file''] (Inr True))"
proof -
  have lang: "language demo_config = ''en''"
    by (simp add: demo_config_def)
  have resolved: "snd (resolve_config demo_env (Resolved demo_config)) = Inr demo_config"
    by (simp add: resolve_config_def returns_def)
  show ?thesis
    using train_remote_precedence [of demo_env "Resolved demo_config" "''./missing.md''"
        "Some ''./models''" None None None demo_endpoint "[]"]
    by (simp add: demo_run_endpoint demo_run_missing is_load_data_def is_data_acquisition_def
        lang resolved)
qed

subsection \<open>Resolving the configuration\<close>

lemma train_config_load_reference:
  "ConfigLoad ref \<in> set (fst (train env nc d path f s cb ep kw)) \<Longrightarrow> nc = Reference ref"
  unfolding train_defs
  by (auto simp: run_simps split: option.splits config_input.splits prod.splits if_splits)

lemma train_resolved_no_config_load:
  "ev \<in> set (fst (train env (Resolved cfg) d path f s cb ep kw)) \<Longrightarrow> \<not> is_config_load ev"
  unfolding train_defs
  by (auto simp: run_simps is_config_load_def
      split: option.splits config_input.splits prod.splits if_splits)

lemma train_resolved_first_call:
  "\<exists>rest. fst (train env (Resolved cfg) d path f s cb ep kw) = TrainerInit cfg # rest"
  unfolding train_def resolve_config_def
  by (simp add: fst_bind_run returns_def call_def)

text \<open>
  C8. A configuration object passes through the resolution step unchanged and without any
  call: the run starts by constructing the trainer from that very object. \<^verbatim>\<open>config.load\<close>
  is called in no run that was given an object; in a run where it is called, the
  configuration was the string it is called on.
\<close>

theorem resolved_config_passthrough:
  "resolve_config env (Resolved cfg) = ([], Inr cfg)
   \<and> (\<exists>rest. fst (train env (Resolved cfg) data path fixed_model_name storage builder
        endpoint kwargs) = TrainerInit cfg # rest)
   \<and> (\<forall>ev \<in> set (fst (train env (Resolved cfg) data path fixed_model_name storage builder
        endpoint kwargs)). \<not> is_config_load ev)
   \<and> (\<forall>nlu_config ref. ConfigLoad ref \<in> set (fst (train env nlu_config data path
        fixed_model_name storage builder endpoint kwargs)) \<longrightarrow> nlu_config = Reference ref)"
proof -
  have "resolve_config env (Resolved cfg) = ([], Inr cfg)"
    by (simp add: resolve_config_def returns_def)
  then show ?thesis
    using train_resolved_first_call [of env cfg]
    by (intro conjI ballI allI impI)
      (assumption | blast | erule train_resolved_no_config_load
        | erule train_config_load_reference)+
qed

theorem resolved_config_passthrough_witness:
  "resolve_config demo_env (Resolved demo_config) = ([], Inr demo_config)
   \<and> fst (train demo_env (Resolved demo_config) ''./missing.md'' None None None None None [])
     = [TrainerInit demo_config, LoadData ''./missing.md'' ''en'']
   \<and> \<not> is_config_load (TrainerInit demo_config :: string event)
   \<and> \<not> is_config_load (LoadData ''./missing.md'' ''en'' :: string event)
   \<and> ConfigLoad ''./cfg.yml''
     \<in> set (fst (train demo_env (Reference ''./cfg.yml'') ''./data.md'' None None None None
          None []))"
proof -
  have resolved: "resolve_config demo_env (Resolved demo_config) = ([], Inr demo_config)"
    by (simp add: resolve_config_def returns_def)
  show ?thesis
    using resolved_config_passthrough [of demo_env demo_config "''./missing.md''" None None
        None None None "[]"]
    by (simp add: demo_run_no_path demo_run_missing is_config_load_def resolved)
qed

subsection \<open>The order of the steps\<close>

lemma train_calls:
  "fst (train env nc d path f s cb ep kw) =
     fst (resolve_config env nc) @
     (case snd (resolve_config env nc) of
        Inl e \<Rightarrow> []
      | Inr cfg \<Rightarrow>
          TrainerInit cfg #
          (case Trainer_init env cfg cb of
             Inl e \<Rightarrow> []
           | Inr trainer \<Rightarrow>
               fst (create_persistor env s) @
               (case snd (create_persistor env s) of
                  Inl e \<Rightarrow> []
                | Inr persistor \<Rightarrow>
                    fst (acquire_training_data env ep d (language cfg)) @
                    (case snd (acquire_training_data env ep d (language cfg)) of
                       Inl e \<Rightarrow> []
                     | Inr training_data \<Rightarrow>
                         TrainerTrain kw #
                         (case Trainer_train env trainer training_data kw of
                            Inl e \<Rightarrow> []
                          | Inr (trainer', interpreter) \<Rightarrow>
                              (if truthy path
                               then [TrainerPersist (the path) persistor f]
                               else []))))))"
  unfolding train_def
  by (simp add: fst_bind_run fst_call snd_call fst_returns snd_returns
      split: sum.splits prod.splits)

lemma train_persistor_first:
  "fst (train env nc d path f (Some name) cb ep kw) = pre @ ev # post \<Longrightarrow>
     is_data_acquisition ev \<Longrightarrow> GetPersistor name \<in> set pre"
  unfolding train_calls
  by (auto simp: create_persistor_def resolve_config_def acquire_training_data_def
      fst_call snd_call fst_returns snd_returns is_data_acquisition_def
      append_eq_Cons_conv Cons_eq_append_conv append_eq_append_conv2
      split: sum.splits prod.splits option.splits config_input.splits if_splits)

lemma train_unknown_persistor_no_data:
  "get_persistor env name = Inl e \<Longrightarrow>
     ev \<in> set (fst (train env nc d path f (Some name) cb ep kw)) \<Longrightarrow> \<not> is_data_acquisition ev"
  unfolding train_defs
  by (auto simp: run_simps is_data_acquisition_def
      split: option.splits config_input.splits prod.splits if_splits)

lemma train_unknown_persistor_raises:
  "get_persistor env name = Inl e \<Longrightarrow> snd (resolve_config env nc) = Inr cfg \<Longrightarrow>
     Trainer_init env cfg cb = Inr trainer \<Longrightarrow>
     snd (train env nc d path f (Some name) cb ep kw) = Inl e"
  unfolding train_def create_persistor_def
  by (simp add: run_simps)

lemma train_unknown_persistor_fails:
  "get_persistor env name = Inl e \<Longrightarrow>
     \<exists>e'. snd (train env nc d path f (Some name) cb ep kw) = Inl e'"
  unfolding train_def create_persistor_def
  by (cases "snd (resolve_config env nc)";
      cases "Trainer_init env (projr (snd (resolve_config env nc))) cb")
    (auto simp: run_simps)

lemma demo_run_aws:
  "train demo_env (Resolved demo_config) ''./data.md'' (Some ''./models'') None (Some ''aws'')
     None None [] =
     ([TrainerInit demo_config, GetPersistor ''aws'', LoadData ''./data.md'' ''en'',
       TrainerTrain [], TrainerPersist ''./models'' (Some ''aws'') None],
      Inr (Suc 0, ''local'', Some ''./models/nlu''))"
  by (simp add: demo_defs)

lemma demo_run_quiet:
  "train demo_env (Resolved demo_config) ''./quiet.md'' (Some ''./out'') None None None
     None [] =
     ([TrainerInit demo_config, LoadData ''./quiet.md'' ''en''],
      Inl (PyExc ''EmptyBatch'' [] (Inr False)))"
  by (simp add: demo_defs)

lemma demo_spec_run_unknown_storage:
  "train (demo_env\<lparr>get_persistor := spec_get_persistor demo_backends\<rparr>)
     (Resolved demo_config) ''./data.md'' (Some ''./models'') None (Some ''unknown-backend'')
     None None [] =
     ([TrainerInit demo_config, GetPersistor ''unknown-backend''],
      Inl (PersistorResolutionError ''unknown-backend''))"
  by (simp add: demo_defs spec_get_persistor_def demo_backends_def)

lemma spec_get_persistor_unrecognized:
  "backends name = None \<Longrightarrow>
     get_persistor (env\<lparr>get_persistor := spec_get_persistor backends\<rparr>) name
       = Inl (PersistorResolutionError name)"
  by (simp add: spec_get_persistor_def)

text \<open>
  C7. \<^verbatim>\<open>create_persistor(storage)\<close> runs before the training data are acquired: in every
  run with a storage identifier, whatever the collaborators do, each call of \<^verbatim>\<open>load_data\<close>
  or \<^verbatim>\<open>load_data_from_endpoint\<close> comes after the call of \<^verbatim>\<open>get_persistor\<close>. With
  \<^verbatim>\<open>get_persistor\<close> as the spec describes it, an identifier that is not recognized makes
  \<^verbatim>\<open>create_persistor\<close> raise \<^verbatim>\<open>PersistorResolutionError\<close>; the run then makes no data
  acquisition call at all and fails, and it fails with that \<^verbatim>\<open>PersistorResolutionError\<close>
  once the configuration was resolved and the trainer constructed.
\<close>

theorem persistor_before_data:
  "let spec_env = env\<lparr>get_persistor := spec_get_persistor backends\<rparr>
   in (\<forall>pre ev post.
        fst (train env nlu_config data path fixed_model_name (Some name) builder endpoint
          kwargs) = pre @ ev # post \<and> is_data_acquisition ev \<longrightarrow> GetPersistor name \<in> set pre)
    \<and> (backends name = None \<longrightarrow>
        create_persistor spec_env (Some name)
          = ([GetPersistor name], Inl (PersistorResolutionError name))
        \<and> exc_class (PersistorResolutionError name) = ''PersistorResolutionError''
        \<and> (\<forall>ev \<in> set (fst (train spec_env nlu_config data path fixed_model_name (Some name)
             builder endpoint kwargs)). \<not> is_data_acquisition ev)
        \<and> (\<exists>e. snd (train spec_env nlu_config data path fixed_model_name (Some name) builder
             endpoint kwargs) = Inl e)
        \<and> (\<forall>cfg trainer. snd (resolve_config spec_env nlu_config) = Inr cfg
             \<and> Trainer_init spec_env cfg builder = Inr trainer \<longrightarrow>
             snd (train spec_env nlu_config data path fixed_model_name (Some name) builder
               endpoint kwargs) = Inl (PersistorResolutionError name)))"
proof -
  let ?spec_env = "env\<lparr>get_persistor := spec_get_persistor backends\<rparr>"
  have unrecognized: "get_persistor ?spec_env name = Inl (PersistorResolutionError name)"
    if "backends name = None"
    using that by (simp add: spec_get_persistor_def)
  have order: "GetPersistor name \<in> set pre"
    if "fst (train env nlu_config data path fixed_model_name (Some name) builder endpoint
      kwargs) = pre @ ev # post \<and> is_data_acquisition ev" for pre ev post
    using that train_persistor_first by blast
  have raises: "create_persistor ?spec_env (Some name)
      = ([GetPersistor name], Inl (PersistorResolutionError name))"
    if "backends name = None"
    using that by (simp add: create_persistor_def call_def spec_get_persistor_def)
  have cls: "exc_class (PersistorResolutionError name) = ''PersistorResolutionError''"
    by (simp add: PersistorResolutionError_def)
  have no_data: "\<not> is_data_acquisition ev"
    if "backends name = None"
      and "ev \<in> set (fst (train ?spec_env nlu_config data path fixed_model_name (Some name)
        builder endpoint kwargs))" for ev
    using train_unknown_persistor_no_data [OF unrecognized [OF that(1)] that(2)] .
  have fails: "\<exists>e. snd (train ?spec_env nlu_config data path fixed_model_name (Some name)
      builder endpoint kwargs) = Inl e"
    if "backends name = None"
    using train_unknown_persistor_fails [OF unrecognized [OF that]] .
  have same: "snd (train ?spec_env nlu_config data path fixed_model_name (Some name) builder
      endpoint kwargs) = Inl (PersistorResolutionError name)"
    if "backends name = None"
      and "snd (resolve_config ?spec_env nlu_config) = Inr cfg
        \<and> Trainer_init ?spec_env cfg builder = Inr trainer" for cfg trainer
    using train_unknown_persistor_raises [OF unrecognized [OF that(1)] conjunct1 [OF that(2)]
        conjunct2 [OF that(2)]] .
  show ?thesis
    unfolding Let_def
    by (intro conjI allI impI ballI)
      (erule order | erule raises | rule cls | erule (1) no_data | erule fails
        | erule (1) same)+
qed

theorem persistor_before_data_witness:
  "demo_backends ''unknown-backend'' = None
   \<and> train (demo_env\<lparr>get_persistor := spec_get_persistor demo_backends\<rparr>)
        (Resolved demo_config) ''./data.md'' (Some ''./models'') None (Some ''unknown-backend'')
        None None []
     = ([TrainerInit demo_config, GetPersistor ''unknown-backend''],
        Inl (PersistorResolutionError ''unknown-backend''))
   \<and> PersistorResolutionError ''unknown-backend''
     = PyExc ''PersistorResolutionError'' [PyStr ''unknown-backend''] (Inr True)
   \<and> \<not> is_data_acquisition (TrainerInit demo_config :: string event)
   \<and> \<not> is_data_acquisition (GetPersistor ''unknown-backend'' :: string event)
   \<and> snd (resolve_config (demo_env\<lparr>get_persistor := spec_get_persistor demo_backends\<rparr>)
        (Resolved demo_config)) = Inr demo_config
   \<and> Trainer_init (demo_env\<lparr>get_persistor := spec_get_persistor demo_backends\<rparr>)
        demo_config None = Inr 0
   \<and> fst (train demo_env (Resolved demo_config) ''./data.md'' (Some ''./models'') None
        (Some ''aws'') None None [])
     = [TrainerInit demo_config, GetPersistor ''aws''] @ LoadData ''./data.md'' ''en''
         # [TrainerTrain [], TrainerPersist ''./models'' (Some ''aws'') None]
   \<and> is_data_acquisition (LoadData ''./data.md'' ''en'' :: string event)
   \<and> GetPersistor ''aws'' \<in> set [TrainerInit demo_config, GetPersistor ''aws'' :: string event]"
proof -
  have unknown: "demo_backends ''unknown-backend'' = None"
    by (simp add: demo_backends_def)
  have init: "Trainer_init (demo_env\<lparr>get_persistor := spec_get_persistor demo_backends\<rparr>)
      demo_config None = Inr 0"
    by (simp add: demo_env_def)
  have resolved: "snd (resolve_config (demo_env\<lparr>get_persistor := spec_get_persistor
      demo_backends\<rparr>) (Resolved demo_config)) = Inr demo_config"
    by (simp add: resolve_config_def returns_def)
  have raised: "PersistorResolutionError ''unknown-backend''
      = PyExc ''PersistorResolutionError'' [PyStr ''unknown-backend''] (Inr True)"
    by (simp add: PersistorResolutionError_def)
  have events: "\<not> is_data_acquisition (TrainerInit demo_config :: string event)"
    "\<not> is_data_acquisition (GetPersistor ''unknown-backend'' :: string event)"
    "is_data_acquisition (LoadData ''./data.md'' ''en'' :: string event)"
    by (simp_all add: is_data_acquisition_def)
  have stored: "fst (train demo_env (Resolved demo_config) ''./data.md'' (Some ''./models'')
      None (Some ''aws'') None None [])
    = [TrainerInit demo_config, GetPersistor ''aws''] @ LoadData ''./data.md'' ''en''
        # [TrainerTrain [], TrainerPersist ''./models'' (Some ''aws'') None]"
    by (simp add: demo_run_aws)
  have run: "?thesis"
    by (intro conjI)
      (rule unknown demo_spec_run_unknown_storage raised events resolved init stored
        | simp)+
  show ?thesis
    using persistor_before_data [where env = demo_env and backends = demo_backends
        and nlu_config = "Resolved demo_config" and data = "''./data.md''"
        and path = "Some ''./models''" and fixed_model_name = None
        and name = "''unknown-backend''" and builder = None and endpoint = None
        and kwargs = "[]"]
      persistor_before_data [where env = demo_env and backends = demo_backends
        and nlu_config = "Resolved demo_config" and data = "''./data.md''"
        and path = "Some ''./models''" and fixed_model_name = None
        and name = "''aws''" and builder = None and endpoint = None and kwargs = "[]"]
    by - (rule run)
qed

subsection \<open>Exceptions inside a run\<close>

lemma train_raises_iff:
  "snd (train env nc d path f s cb ep kw) = Inl e \<longleftrightarrow>
     snd (resolve_config env nc) = Inl e
     \<or> (\<exists>cfg. snd (resolve_config env nc) = Inr cfg
          \<and> (Trainer_init env cfg cb = Inl e
             \<or> (\<exists>trainer. Trainer_init env cfg cb = Inr trainer
                  \<and> (snd (create_persistor env s) = Inl e
                     \<or> (\<exists>persistor. snd (create_persistor env s) = Inr persistor
                          \<and> (snd (acquire_training_data env ep d (language cfg)) = Inl e
                             \<or> (\<exists>td. snd (acquire_training_data env ep d (language cfg)) = Inr td
                                  \<and> (Trainer_train env trainer td kw = Inl e
                                     \<or> (\<exists>trainer' it. Trainer_train env trainer td kw
                                            = Inr (trainer', it)
                                          \<and> truthy path
                                          \<and> Trainer_persist env trainer' (the path) persistor f
                                            = Inl e)))))))))"
  unfolding train_def
  by (auto simp: run_simps split: prod.splits if_splits)

text \<open>
  C6. \<^verbatim>\<open>train\<close> has no handler: an exception raised by \<^verbatim>\<open>config.load\<close>, by the
  \<^verbatim>\<open>Trainer\<close> constructor, by \<^verbatim>\<open>get_persistor\<close>, by either data loader, by
  \<^verbatim>\<open>trainer.train\<close> or by \<^verbatim>\<open>trainer.persist\<close>, the steps before it having returned, is
  the exception \<^verbatim>\<open>train\<close> raises, the same object with its class and arguments. And
  \<^verbatim>\<open>train\<close> raises nothing of its own: whatever it raises was raised by one of these calls.
\<close>

theorem train_propagates_failures:
  "let outcome = snd (train env nlu_config data path fixed_model_name storage builder endpoint
         kwargs)
   in (\<forall>ref e. nlu_config = Reference ref \<and> config_load env ref = Inl e \<longrightarrow> outcome = Inl e)
    \<and> (\<forall>cfg e. snd (resolve_config env nlu_config) = Inr cfg
          \<and> Trainer_init env cfg builder = Inl e \<longrightarrow> outcome = Inl e)
    \<and> (\<forall>cfg trainer name e. snd (resolve_config env nlu_config) = Inr cfg
          \<and> Trainer_init env cfg builder = Inr trainer
          \<and> storage = Some name \<and> get_persistor env name = Inl e \<longrightarrow> outcome = Inl e)
    \<and> (\<forall>cfg trainer persistor e. snd (resolve_config env nlu_config) = Inr cfg
          \<and> Trainer_init env cfg builder = Inr trainer
          \<and> snd (create_persistor env storage) = Inr persistor
          \<and> (case endpoint of
                Some ep \<Rightarrow> load_data_from_endpoint env ep (language cfg)
              | None \<Rightarrow> load_data env data (language cfg)) = Inl e \<longrightarrow> outcome = Inl e)
    \<and> (\<forall>cfg trainer persistor td e. snd (resolve_config env nlu_config) = Inr cfg
          \<and> Trainer_init env cfg builder = Inr trainer
          \<and> snd (create_persistor env storage) = Inr persistor
          \<and> snd (acquire_training_data env endpoint data (language cfg)) = Inr td
          \<and> Trainer_train env trainer td kwargs = Inl e \<longrightarrow> outcome = Inl e)
    \<and> (\<forall>cfg trainer persistor td trainer' it p e. snd (resolve_config env nlu_config) = Inr cfg
          \<and> Trainer_init env cfg builder = Inr trainer
          \<and> snd (create_persistor env storage) = Inr persistor
          \<and> snd (acquire_training_data env endpoint data (language cfg)) = Inr td
          \<and> Trainer_train env trainer td kwargs = Inr (trainer', it)
          \<and> path = Some p \<and> p \<noteq> []
          \<and> Trainer_persist env trainer' p persistor fixed_model_name = Inl e \<longrightarrow>
          outcome = Inl e)
    \<and> (\<forall>e. outcome = Inl e \<longrightarrow>
          (\<exists>ref. nlu_config = Reference ref \<and> config_load env ref = Inl e)
          \<or> (\<exists>cfg. Trainer_init env cfg builder = Inl e)
          \<or> (\<exists>name. storage = Some name \<and> get_persistor env name = Inl e)
          \<or> (\<exists>ep lang. endpoint = Some ep \<and> load_data_from_endpoint env ep lang = Inl e)
          \<or> (\<exists>lang. endpoint = None \<and> load_data env data lang = Inl e)
          \<or> (\<exists>trainer td. Trainer_train env trainer td kwargs = Inl e)
          \<or> (\<exists>trainer p persistor. path = Some p
                \<and> Trainer_persist env trainer p persistor fixed_model_name = Inl e))"
  unfolding Let_def train_raises_iff
  by (intro conjI allI impI)
    (auto simp: resolve_config_def create_persistor_def acquire_training_data_def truthy_def
      snd_call snd_returns split: option.splits config_input.splits)

theorem train_propagates_failures_witness:
  "snd (resolve_config demo_env (Resolved demo_config)) = Inr demo_config
   \<and> Trainer_init demo_env demo_config None = Inr 0
   \<and> snd (create_persistor demo_env None) = Inr None
   \<and> snd (acquire_training_data demo_env None ''./bad.md'' (language demo_config)) = Inr ''bad''
   \<and> Trainer_train demo_env 0 ''bad'' []
     = Inl (PyExc ''ValueError'' [PyStr ''bad feature X''] (Inr True))
   \<and> snd (train demo_env (Resolved demo_config) ''./bad.md'' (Some ''./out'') None None None
        None [])
     = Inl (PyExc ''ValueError'' [PyStr ''bad feature X''] (Inr True))"
proof -
  have steps: "snd (resolve_config demo_env (Resolved demo_config)) = Inr demo_config"
    "Trainer_init demo_env demo_config None = Inr 0"
    "snd (create_persistor demo_env None) = Inr None"
    "snd (acquire_training_data demo_env None ''./bad.md'' (language demo_config)) = Inr ''bad''"
    "Trainer_train demo_env 0 ''bad'' []
      = Inl (PyExc ''ValueError'' [PyStr ''bad feature X''] (Inr True))"
    by (simp_all add: resolve_config_def create_persistor_def acquire_training_data_def
        returns_def call_def demo_env_def demo_load_data_def)
  show ?thesis
    using train_propagates_failures [of demo_env "Resolved demo_config" "''./bad.md''"
        "Some ''./out''" None None None None "[]"]
    by (simp add: steps demo_run_bad_feature)
qed

subsection \<open>The worker entry point\<close>

lemma worker_returns:
  "snd (train env cfg d path f s cb None []) = Inr (t, i, p) \<Longrightarrow>
     do_train_in_worker env cfg d path f s cb = (fst (train env cfg d path f s cb None []), Inr p)"
  unfolding do_train_in_worker_def
  by (cases "train env cfg d path f s cb None []") simp

lemma worker_raises:
  "snd (train env cfg d path f s cb None []) = Inl e \<Longrightarrow>
     do_train_in_worker env cfg d path f s cb =
       (fst (train env cfg d path f s cb None []) @ [LogException (failed_to_train d)],
        case TrainingException_init path (Some e) of
          Inl e' \<Rightarrow> Inl (Raised e')
        | Inr te \<Rightarrow> Inl (Raised_TrainingException te))"
  unfolding do_train_in_worker_def
  by (cases "train env cfg d path f s cb None []") simp

lemma worker_raises_first_argument:
  "snd (train env cfg d path f s cb None []) = Inl e \<Longrightarrow> exc_bool e = Inr True \<Longrightarrow>
     exc_args e = a # rest \<Longrightarrow>
     snd (do_train_in_worker env cfg d path f s cb) =
       Inl (Raised_TrainingException \<lparr>failed_target_project = path, message = Some a\<rparr>)"
  by (simp add: worker_raises TrainingException_init_def)

lemma worker_raises_IndexError:
  "snd (train env cfg d path f s cb None []) = Inl e \<Longrightarrow> exc_bool e = Inr True \<Longrightarrow>
     exc_args e = [] \<Longrightarrow>
     snd (do_train_in_worker env cfg d path f s cb) = Inl (Raised IndexError)"
  by (simp add: worker_raises TrainingException_init_def)

lemma worker_raises_without_message:
  "snd (train env cfg d path f s cb None []) = Inl e \<Longrightarrow> exc_bool e = Inr False \<Longrightarrow>
     snd (do_train_in_worker env cfg d path f s cb) =
       Inl (Raised_TrainingException \<lparr>failed_target_project = path, message = None\<rparr>)"
  by (simp add: worker_raises TrainingException_init_def)

lemma worker_raises_truth_test:
  "snd (train env cfg d path f s cb None []) = Inl e \<Longrightarrow> exc_bool e = Inl e' \<Longrightarrow>
     snd (do_train_in_worker env cfg d path f s cb) = Inl (Raised e')"
  by (simp add: worker_raises TrainingException_init_def)

lemma worker_TrainingException_origin:
  assumes "snd (do_train_in_worker env cfg d path f s cb) = Inl (Raised_TrainingException te)"
  shows "\<exists>e. snd (train env cfg d path f s cb None []) = Inl e
    \<and> (exc_bool e = Inr True
          \<and> (\<exists>a rest. exc_args e = a # rest
                \<and> te = \<lparr>failed_target_project = path, message = Some a\<rparr>)
        \<or> exc_bool e = Inr False \<and> te = \<lparr>failed_target_project = path, message = None\<rparr>)"
proof (cases "snd (train env cfg d path f s cb None [])")
  case (Inl e)
  with assms show ?thesis
    by (auto simp: worker_raises TrainingException_init_def
        split: sum.splits list.splits if_splits)
next
  case (Inr r)
  with assms show ?thesis
    by (cases r) (simp add: worker_returns)
qed

lemma demo_worker_interrupted:
  "do_train_in_worker demo_env (Resolved demo_config) ''./interrupted.md'' (Some ''./out'') None
     None None =
     ([TrainerInit demo_config, LoadData ''./interrupted.md'' ''en'',
       LogException (failed_to_train ''./interrupted.md'')],
      Inl (Raised IndexError))"
  by (simp add: worker_raises demo_run_interrupted TrainingException_init_def)

text \<open>
  C1. The translation of a failure into a \<^verbatim>\<open>TrainingException\<close> does not happen for every
  failure. Here \<^verbatim>\<open>load_data\<close> raises \<^verbatim>\<open>KeyboardInterrupt()\<close>, whose \<^verbatim>\<open>args\<close> is empty;
  \<^verbatim>\<open>train\<close> raises it, the handler of \<^verbatim>\<open>do_train_in_worker\<close> logs, and the construction
  \<^verbatim>\<open>TrainingException(path, e)\<close> raises \<^verbatim>\<open>IndexError\<close>: what leaves the worker is not a
  \<^verbatim>\<open>TrainingException\<close>, and neither the path nor a message travels with it.
\<close>

theorem worker_translation_fails_on_bare_exception:
  "train demo_env (Resolved demo_config) ''./interrupted.md'' (Some ''./out'') None None None
     None []
     = ([TrainerInit demo_config, LoadData ''./interrupted.md'' ''en''],
        Inl (PyExc ''KeyboardInterrupt'' [] (Inr True)))
   \<and> do_train_in_worker demo_env (Resolved demo_config) ''./interrupted.md'' (Some ''./out'')
        None None None
     = ([TrainerInit demo_config, LoadData ''./interrupted.md'' ''en'',
         LogException (failed_to_train ''./interrupted.md'')],
        Inl (Raised (PyExc ''IndexError'' [PyStr ''tuple index out of range''] (Inr True))))"
  by (simp add: demo_run_interrupted demo_worker_interrupted IndexError_def)

text \<open>
  C2, as the code has it. \<^verbatim>\<open>do_train_in_worker\<close> takes the first six parameters of
  \<^verbatim>\<open>train\<close> and has neither \<^verbatim>\<open>training_data_endpoint\<close> nor keyword parameters, so \<^verbatim>\<open>train\<close>
  runs without an endpoint and without keyword arguments. Whenever that run returns, the
  worker has made the same calls and returns the third component of the result.
\<close>

theorem worker_returns_persisted_path:
  "snd (train env cfg data path fixed_model_name storage builder None []) = Inr (t, i, p) \<Longrightarrow>
     do_train_in_worker env cfg data path fixed_model_name storage builder
       = (fst (train env cfg data path fixed_model_name storage builder None []), Inr p)"
  by (rule worker_returns)

theorem worker_returns_persisted_path_witness:
  "snd (train demo_env (Reference ''./cfg.yml'') ''./data.md'' (Some ''./models'') None None None
        None []) = Inr (Suc 0, ''local'', Some ''./models/nlu'')
   \<and> do_train_in_worker demo_env (Reference ''./cfg.yml'') ''./data.md'' (Some ''./models'') None
        None None
     = ([ConfigLoad ''./cfg.yml'', TrainerInit demo_config, LoadData ''./data.md'' ''en'',
         TrainerTrain [], TrainerPersist ''./models'' None None],
        Inr (Some ''./models/nlu''))"
proof -
  have run: "snd (train demo_env (Reference ''./cfg.yml'') ''./data.md'' (Some ''./models'') None
    None None None []) = Inr (Suc 0, ''local'', Some ''./models/nlu'')"
    by (simp add: demo_run_path)
  from worker_returns_persisted_path [OF run] run show ?thesis
    by (simp add: demo_run_path)
qed

text \<open>
  C2, as stated, fails on an input of \<^verbatim>\<open>train\<close> that has an endpoint: \<^verbatim>\<open>train\<close> loads from
  the endpoint and returns, while the worker, which cannot be handed the endpoint, loads
  the missing local file and raises.
\<close>

theorem worker_cannot_relay_endpoint:
  "snd (train demo_env (Resolved demo_config) ''./missing.md'' (Some ''./models'') None None
        None (Some demo_endpoint) []) = Inr (Suc 0, ''remote'', Some ''./models/nlu'')
   \<and> snd (do_train_in_worker demo_env (Resolved demo_config) ''./missing.md''
        (Some ''./models'') None None None)
     = Inl (Raised_TrainingException
         \<lparr>failed_target_project = Some ''./models'', message = Some (PyStr ''no such file'')\<rparr>)"
  by (simp add: demo_run_endpoint worker_raises demo_run_missing TrainingException_init_def)

text \<open>
  C3, as the code has it. A message carried by a \<^verbatim>\<open>TrainingException\<close> that leaves the
  worker is the first argument of the exception \<^verbatim>\<open>train\<close> raised, copied as it is and
  never made up; and every exception of \<^verbatim>\<open>train\<close> that tests true (as every exception
  does whose class defines neither \<^verbatim>\<open>__bool__\<close> nor \<^verbatim>\<open>__len__\<close>) and has a first argument
  leaves the worker as the \<^verbatim>\<open>TrainingException\<close> with the output path and with that
  argument as its message. Nothing makes the message non-empty.
\<close>

theorem worker_message_is_first_argument:
  "(\<forall>te m. snd (do_train_in_worker env cfg data path fixed_model_name storage builder)
        = Inl (Raised_TrainingException te) \<and> message te = Some m \<longrightarrow>
      (\<exists>e rest. snd (train env cfg data path fixed_model_name storage builder None [])
          = Inl e \<and> exc_args e = m # rest))
   \<and> (\<forall>e a rest. snd (train env cfg data path fixed_model_name storage builder None [])
          = Inl e \<and> exc_bool e = Inr True \<and> exc_args e = a # rest \<longrightarrow>
      snd (do_train_in_worker env cfg data path fixed_model_name storage builder)
        = Inl (Raised_TrainingException \<lparr>failed_target_project = path, message = Some a\<rparr>))"
proof (intro conjI allI impI)
  fix te m
  assume raised: "snd (do_train_in_worker env cfg data path fixed_model_name storage builder)
    = Inl (Raised_TrainingException te) \<and> message te = Some m"
  from worker_TrainingException_origin [OF conjunct1 [OF raised]] conjunct2 [OF raised]
  show "\<exists>e rest. snd (train env cfg data path fixed_model_name storage builder None [])
    = Inl e \<and> exc_args e = m # rest"
    by auto
next
  fix e a rest
  assume raised: "snd (train env cfg data path fixed_model_name storage builder None [])
    = Inl e \<and> exc_bool e = Inr True \<and> exc_args e = a # rest"
  show "snd (do_train_in_worker env cfg data path fixed_model_name storage builder)
    = Inl (Raised_TrainingException \<lparr>failed_target_project = path, message = Some a\<rparr>)"
    using raised by (simp add: worker_raises_first_argument)
qed

theorem worker_message_is_first_argument_witness:
  "snd (train demo_env (Resolved demo_config) ''./bad.md'' (Some ''./out'') None None None
        None [])
     = Inl (PyExc ''ValueError'' [PyStr ''bad feature X''] (Inr True))
   \<and> exc_bool (PyExc ''ValueError'' [PyStr ''bad feature X''] (Inr True)) = Inr True
   \<and> exc_args (PyExc ''ValueError'' [PyStr ''bad feature X''] (Inr True))
     = PyStr ''bad feature X'' # []
   \<and> snd (do_train_in_worker demo_env (Resolved demo_config) ''./bad.md'' (Some ''./out'') None
        None None)
     = Inl (Raised_TrainingException
         \<lparr>failed_target_project = Some ''./out'', message = Some (PyStr ''bad feature X'')\<rparr>)
   \<and> message \<lparr>failed_target_project = Some ''./out'', message = Some (PyStr ''bad feature X'')\<rparr>
     = Some (PyStr ''bad feature X'')"
  using worker_message_is_first_argument [of demo_env "Resolved demo_config" "''./bad.md''"
      "Some ''./out''" None None None]
  by (simp add: demo_run_bad_feature worker_raises TrainingException_init_def)

text \<open>
  C3, as stated, fails where the first argument is the empty string, as in
  \<^verbatim>\<open>raise ValueError("")\<close>: the \<^verbatim>\<open>TrainingException\<close> carries the empty message.
\<close>

theorem worker_message_can_be_empty:
  "snd (train demo_env (Resolved demo_config) ''./blank.md'' (Some ''./out'') None None None
        None [])
     = Inl (PyExc ''ValueError'' [PyStr ''''] (Inr True))
   \<and> snd (do_train_in_worker demo_env (Resolved demo_config) ''./blank.md'' (Some ''./out'')
        None None None)
     = Inl (Raised_TrainingException
         \<lparr>failed_target_project = Some ''./out'', message = Some (PyStr '''')\<rparr>)"
  by (simp add: demo_run_blank worker_raises TrainingException_init_def)

text \<open>
  C9, as the code has it. An exception that tests true (as every exception does whose
  class defines neither \<^verbatim>\<open>__bool__\<close> nor \<^verbatim>\<open>__len__\<close>) and has an empty \<^verbatim>\<open>args\<close> makes
  \<^verbatim>\<open>TrainingException(path, e)\<close> raise \<^verbatim>\<open>IndexError\<close>, and that, not a
  \<^verbatim>\<open>TrainingException\<close>, is what the worker raises when \<^verbatim>\<open>train\<close> raised such an
  exception. A \<^verbatim>\<open>TrainingException\<close> constructed without an exception has no \<^verbatim>\<open>message\<close>
  attribute.
\<close>

theorem worker_bare_exception:
  "(\<forall>e. snd (train env cfg data path fixed_model_name storage builder None []) = Inl e
        \<and> exc_bool e = Inr True \<and> exc_args e = [] \<longrightarrow>
      snd (do_train_in_worker env cfg data path fixed_model_name storage builder)
        = Inl (Raised IndexError)
      \<and> (\<forall>te. snd (do_train_in_worker env cfg data path fixed_model_name storage builder)
            \<noteq> Inl (Raised_TrainingException te)))
   \<and> (\<forall>e. exc_bool e = Inr True \<and> exc_args e = [] \<longrightarrow>
        TrainingException_init project (Some e) = Inl IndexError)
   \<and> TrainingException_init project None
       = Inr \<lparr>failed_target_project = project, message = None\<rparr>"
  by (auto simp: worker_raises_IndexError TrainingException_init_def)

theorem worker_bare_exception_witness:
  "snd (train demo_env (Reference ''./cfg.yml'') ''./interrupted.md'' None None None None
        None [])
     = Inl (PyExc ''KeyboardInterrupt'' [] (Inr True))
   \<and> exc_bool (PyExc ''KeyboardInterrupt'' [] (Inr True)) = Inr True
   \<and> exc_args (PyExc ''KeyboardInterrupt'' [] (Inr True)) = []
   \<and> snd (do_train_in_worker demo_env (Reference ''./cfg.yml'') ''./interrupted.md'' None None
        None None) = Inl (Raised IndexError)
   \<and> TrainingException_init None (Some (PyExc ''KeyboardInterrupt'' [] (Inr True)))
     = Inl IndexError
   \<and> exc_class IndexError = ''IndexError''"
proof -
  have run: "snd (train demo_env (Reference ''./cfg.yml'') ''./interrupted.md'' None None None
    None None []) = Inl (PyExc ''KeyboardInterrupt'' [] (Inr True))"
    by (simp add: demo_defs)
  show ?thesis
    using worker_bare_exception [of demo_env "Reference ''./cfg.yml''" "''./interrupted.md''"
        None None None None None]
    by (simp add: run IndexError_def)
qed

text \<open>
  C9, as stated, fails for an exception object that tests false. Here \<^verbatim>\<open>load_data\<close> raises
  an \<^verbatim>\<open>EmptyBatch()\<close> with an empty \<^verbatim>\<open>args\<close>: \<^verbatim>\<open>if exception:\<close> is false, the index is never
  evaluated, and the worker raises a \<^verbatim>\<open>TrainingException\<close> that has no \<^verbatim>\<open>message\<close>, not an
  \<^verbatim>\<open>IndexError\<close>.
\<close>

theorem worker_false_exception_no_IndexError:
  "snd (train demo_env (Resolved demo_config) ''./quiet.md'' (Some ''./out'') None None None
        None [])
     = Inl (PyExc ''EmptyBatch'' [] (Inr False))
   \<and> exc_args (PyExc ''EmptyBatch'' [] (Inr False)) = []
   \<and> snd (do_train_in_worker demo_env (Resolved demo_config) ''./quiet.md'' (Some ''./out'')
        None None None)
     = Inl (Raised_TrainingException \<lparr>failed_target_project = Some ''./out'', message = None\<rparr>)
   \<and> snd (do_train_in_worker demo_env (Resolved demo_config) ''./quiet.md'' (Some ''./out'')
        None None None) \<noteq> Inl (Raised IndexError)"
  by (simp add: demo_run_quiet worker_raises TrainingException_init_def)

end
